theory Spec2Isabelle
  imports Complex_Main "HOL-Library.Monad_Syntax"
begin

section \<open>Values, sheets and data frames\<close>

text \<open>
  A Python float is modelled as an exact real number or one of the three IEEE special
  values; rounding and overflow are not modelled. A spreadsheet cell, as pandas hands it
  to the program, is a float (a blank cell is read as NaN) or a text.
\<close>

datatype fval = Fin real | PosInf | NegInf | NaN

datatype cell = Number fval | Text string

type_synonym sheet = "cell list list"

text \<open>
  A data frame is kept row by row under its column labels. The labels are the cells of
  the header row; a row shorter than the header reads as NaN beyond its end.
\<close>

record dataframe =
  columns :: "cell list"
  rows :: "cell list list"

datatype message =
    MissingRequiredColumns "string list"
  | NoValidRows
  | CouldNotConvert string

datatype error = ValueError message | IndexError | KeyError | FileNotFoundError

datatype out_line =
    LineFile string
  | LineLengths fval fval fval fval
  | LineScore real
  | LineWrote string

record world =
  files :: "string \<rightharpoonup> sheet"
  stdout :: "out_line list"

text \<open>
  The outcome of a run of \<open>compute_restraint_score\<close>: an exception, a normal return, or
  a run whose arithmetic meets an IEEE infinity or NaN (a zero length, an infinite cell).
  The source carries on with such values; the exact reals used here do not follow it
  there, so that case is kept apart and nothing is claimed about it.
\<close>

datatype 'a outcome = Raises error | Returns 'a | NonFinite

subsection \<open>Configuration constants\<close>

definition D0 :: real where
  "D0 = 18 / 10"

definition LENGTH_CELLS :: "(string \<times> nat \<times> nat) list" where
  "LENGTH_CELLS = [(''Ls'', (1, 1)), (''Lx'', (2, 1)), (''Ly'', (3, 1)), (''Lz'', (4, 1))]"

definition TABLE_SKIPROWS :: nat where
  "TABLE_SKIPROWS = 6"

definition REQUIRED_COLUMNS :: "string list" where
  "REQUIRED_COLUMNS =
     [''prot x coor'', ''prot y coor'', ''prot z coor'', ''sl'', ''wi'', ''dij'']"

subsection \<open>Text to float\<close>

text \<open>
  Both \<open>float(...)\<close> and \<open>pd.to_numeric\<close> turn a text into a float. The part of their
  common grammar modelled here is: an optional sign, digits with an optional fraction,
  and the names \<open>inf\<close>, \<open>+inf\<close>, \<open>-inf\<close>, \<open>nan\<close>. Any other text counts as not
  numeric.
\<close>

definition is_digit :: "char \<Rightarrow> bool" where
  "is_digit c = (c \<in> set ''0123456789'')"

definition digits_value :: "string \<Rightarrow> nat" where
  "digits_value s = foldl (\<lambda>a c. 10 * a + (of_char c - 48)) 0 s"

definition parse_unsigned :: "string \<Rightarrow> real option" where
  "parse_unsigned s =
     (let ip = takeWhile is_digit s; rest = dropWhile is_digit s
      in case rest of
           [] \<Rightarrow> if ip = [] then None else Some (real (digits_value ip))
         | c # fp \<Rightarrow>
             if c = CHR ''.'' \<and> list_all is_digit fp \<and> (ip \<noteq> [] \<or> fp \<noteq> [])
             then Some (real (digits_value ip) + real (digits_value fp) / 10 ^ length fp)
             else None)"

definition parse_float :: "string \<Rightarrow> fval option" where
  "parse_float s =
     (if s = ''nan'' then Some NaN
      else if s = ''inf'' \<or> s = ''+inf'' then Some PosInf
      else if s = ''-inf'' then Some NegInf
      else case s of
             [] \<Rightarrow> None
           | c # t \<Rightarrow>
               if c = CHR ''-'' then map_option (\<lambda>r. Fin (- r)) (parse_unsigned t)
               else if c = CHR ''+'' then map_option Fin (parse_unsigned t)
               else map_option Fin (parse_unsigned s))"

text \<open>\<open>float(x)\<close>: a float is returned as it is, a text is parsed or raises ValueError.\<close>

definition py_float :: "cell \<Rightarrow> error + fval" where
  "py_float c =
     (case c of
        Number v \<Rightarrow> Inr v
      | Text s \<Rightarrow>
          (case parse_float s of
             Some v \<Rightarrow> Inr v
           | None \<Rightarrow> Inl (ValueError (CouldNotConvert s))))"

text \<open>\<open>pd.to_numeric(..., errors="coerce")\<close> on one cell: a text that fails becomes NaN.\<close>

definition to_numeric :: "cell \<Rightarrow> fval" where
  "to_numeric c =
     (case c of
        Number v \<Rightarrow> v
      | Text s \<Rightarrow> (case parse_float s of Some v \<Rightarrow> v | None \<Rightarrow> NaN))"

subsection \<open>Reading the workbook\<close>

definition width :: "sheet \<Rightarrow> nat" where
  "width g = foldr (\<lambda>r m. max (length r) m) g 0"

definition fit :: "nat \<Rightarrow> cell list \<Rightarrow> cell list" where
  "fit w r = take w r @ replicate (w - length r) (Number NaN)"

text \<open>\<open>pd.read_excel(path, header=None)\<close>: the raw grid, rectangular, blanks as NaN.\<close>

definition read_excel_raw :: "world \<Rightarrow> string \<Rightarrow> error + sheet" where
  "read_excel_raw w path =
     (case files w path of
        None \<Rightarrow> Inl FileNotFoundError
      | Some g \<Rightarrow> Inr (map (fit (width g)) g))"

text \<open>
  \<open>pd.read_excel(path, skiprows=n)\<close>: the first \<open>n\<close> rows are skipped, the next one is
  the header and the others are the data. The renaming pandas applies to blank and
  repeated header cells is not modelled: a label is the header cell as read, and a
  column is looked up at the first label that matches.
\<close>

definition read_excel_table :: "world \<Rightarrow> string \<Rightarrow> nat \<Rightarrow> error + dataframe" where
  "read_excel_table w path skiprows =
     (case read_excel_raw w path of
        Inl e \<Rightarrow> Inl e
      | Inr g \<Rightarrow>
          (case drop skiprows g of
             [] \<Rightarrow> Inr \<lparr>columns = [], rows = []\<rparr>
           | h # rs \<Rightarrow> Inr \<lparr>columns = h, rows = rs\<rparr>))"

text \<open>\<open>sheet.iat[r, c]\<close>: IndexError outside the grid.\<close>

definition iat :: "sheet \<Rightarrow> nat \<Rightarrow> nat \<Rightarrow> error + cell" where
  "iat g r c =
     (if r < length g \<and> c < length (g ! r) then Inr (g ! r ! c) else Inl IndexError)"

subsection \<open>Columns of a data frame\<close>

fun index_of :: "'a \<Rightarrow> 'a list \<Rightarrow> nat option" where
  "index_of x [] = None"
| "index_of x (y # ys) =
     (if x = y then Some 0 else map_option Suc (index_of x ys))"

definition cell_at :: "cell list \<Rightarrow> nat \<Rightarrow> cell" where
  "cell_at r i = (if i < length r then r ! i else Number NaN)"

text \<open>\<open>df[c]\<close> for reading: the cells of the column labelled \<open>c\<close>, None for KeyError.\<close>

definition get_col :: "dataframe \<Rightarrow> string \<Rightarrow> cell list option" where
  "get_col df c =
     (case index_of (Text c) (columns df) of
        None \<Rightarrow> None
      | Some i \<Rightarrow> Some (map (\<lambda>r. cell_at r i) (rows df)))"

text \<open>
  \<open>df[c] = values\<close>: the column labelled \<open>c\<close> is replaced where it stands, or a new
  column is appended after the last one.
\<close>

definition set_col :: "dataframe \<Rightarrow> string \<Rightarrow> cell list \<Rightarrow> dataframe" where
  "set_col df c vs =
     (let w = length (columns df)
      in case index_of (Text c) (columns df) of
           Some i \<Rightarrow> df\<lparr>rows := map (\<lambda>(r, v). (fit w r)[i := v]) (zip (rows df) vs)\<rparr>
         | None \<Rightarrow>
             \<lparr>columns = columns df @ [Text c],
              rows = map (\<lambda>(r, v). fit w r @ [v]) (zip (rows df) vs)\<rparr>)"

section \<open>The input reader\<close>

text \<open>The inner function \<open>_cell\<close> of \<open>read_lengths\<close>.\<close>

definition lengths_cell :: "sheet \<Rightarrow> string \<Rightarrow> error + fval" where
  "lengths_cell sheet name =
     (case map_of LENGTH_CELLS name of
        None \<Rightarrow> Inl KeyError
      | Some (r, c) \<Rightarrow>
          (case iat sheet r c of Inl e \<Rightarrow> Inl e | Inr x \<Rightarrow> py_float x))"

text \<open>The four cells are read in the order of the returned tuple; the first error wins.\<close>

definition read_lengths :: "world \<Rightarrow> string \<Rightarrow> error + (fval \<times> fval \<times> fval \<times> fval)" where
  "read_lengths w excel_path =
     (case read_excel_raw w excel_path of
        Inl e \<Rightarrow> Inl e
      | Inr sheet \<Rightarrow>
          (case lengths_cell sheet ''Ls'' of
             Inl e \<Rightarrow> Inl e
           | Inr ls \<Rightarrow>
               (case lengths_cell sheet ''Lx'' of
                  Inl e \<Rightarrow> Inl e
                | Inr lx \<Rightarrow>
                    (case lengths_cell sheet ''Ly'' of
                       Inl e \<Rightarrow> Inl e
                     | Inr ly \<Rightarrow>
                         (case lengths_cell sheet ''Lz'' of
                            Inl e \<Rightarrow> Inl e
                          | Inr lz \<Rightarrow> Inr (ls, lx, ly, lz))))))"

text \<open>The loop \<open>for c in REQUIRED_COLUMNS: df[c] = pd.to_numeric(df[c], errors="coerce")\<close>.\<close>

fun coerce_columns :: "dataframe \<Rightarrow> string list \<Rightarrow> error + dataframe" where
  "coerce_columns df [] = Inr df"
| "coerce_columns df (c # cs) =
     (case get_col df c of
        None \<Rightarrow> Inl KeyError
      | Some vs \<Rightarrow> coerce_columns (set_col df c (map (\<lambda>x. Number (to_numeric x)) vs)) cs)"

text \<open>\<open>df.dropna(subset=...)\<close>: a row stays when none of the named cells is NaN.\<close>

definition dropna :: "dataframe \<Rightarrow> string list \<Rightarrow> error + dataframe" where
  "dropna df names =
     (case those (map (\<lambda>c. index_of (Text c) (columns df)) names) of
        None \<Rightarrow> Inl KeyError
      | Some ixs \<Rightarrow>
          Inr (df\<lparr>rows := filter (\<lambda>r. list_all (\<lambda>i. cell_at r i \<noteq> Number NaN) ixs) (rows df)\<rparr>))"

definition empty_df :: "dataframe \<Rightarrow> bool" where
  "empty_df df = (rows df = [] \<or> columns df = [])"

definition read_restraint_table :: "world \<Rightarrow> string \<Rightarrow> error + dataframe" where
  "read_restraint_table w excel_path =
     (case read_excel_table w excel_path TABLE_SKIPROWS of
        Inl e \<Rightarrow> Inl e
      | Inr df \<Rightarrow>
          (let missing = filter (\<lambda>c. Text c \<notin> set (columns df)) REQUIRED_COLUMNS
           in if missing \<noteq> [] then Inl (ValueError (MissingRequiredColumns missing))
              else
                (case coerce_columns df REQUIRED_COLUMNS of
                   Inl e \<Rightarrow> Inl e
                 | Inr df1 \<Rightarrow>
                     (case dropna df1 REQUIRED_COLUMNS of
                        Inl e \<Rightarrow> Inl e
                      | Inr df2 \<Rightarrow>
                          if empty_df df2 then Inl (ValueError NoValidRows) else Inr df2))))"

section \<open>The score evaluator\<close>

fun fin :: "cell \<Rightarrow> real option" where
  "fin (Number (Fin r)) = Some r"
| "fin _ = None"

text \<open>A column read as exact reals; None when it is absent or holds a value that is not finite.\<close>

definition num_col :: "dataframe \<Rightarrow> string \<Rightarrow> real list option" where
  "num_col df c = (case get_col df c of None \<Rightarrow> None | Some vs \<Rightarrow> those (map fin vs))"

definition put_col :: "dataframe \<Rightarrow> string \<Rightarrow> real list \<Rightarrow> dataframe" where
  "put_col df c vs = set_col df c (map (\<lambda>v. Number (Fin v)) vs)"

definition mean :: "real list \<Rightarrow> real" where
  "mean xs = sum_list xs / real (length xs)"

text \<open>
  Lines 95 to 120 of \<open>compute_restraint_score\<close>, on the lengths and the cleaned table.
  The result is None where the source computes with an infinity or a NaN: a length that
  is zero, an empty table (whose mean is NaN), a cell that is not finite.
\<close>

definition evaluate ::
  "real \<Rightarrow> real \<Rightarrow> real \<Rightarrow> real \<Rightarrow> dataframe \<Rightarrow> (dataframe \<times> real) option" where
  "evaluate Ls Lx Ly Lz df =
     (if Ls = 0 \<or> Lx = 0 \<or> Ly = 0 \<or> Lz = 0 \<or> rows df = [] then None
      else do {
        let n = real (length (rows df));
        dij \<leftarrow> num_col df ''dij'';
        let df1 = put_col df ''fdij'' (map (\<lambda>d. exp (- (d - D0))) dij);
        wi \<leftarrow> num_col df1 ''wi'';
        fdij \<leftarrow> num_col df1 ''fdij'';
        let df2 = put_col df1 ''omega_ij'' (map2 (*) wi fdij);
        x \<leftarrow> num_col df2 ''prot x coor'';
        y \<leftarrow> num_col df2 ''prot y coor'';
        z \<leftarrow> num_col df2 ''prot z coor'';
        let mu_x = mean x;
        let mu_y = mean y;
        let mu_z = mean z;
        let px = map (\<lambda>v. ((v - mu_x) / Lx)\<^sup>2) x;
        let py = map (\<lambda>v. ((v - mu_y) / Ly)\<^sup>2) y;
        let pz = map (\<lambda>v. ((v - mu_z) / Lz)\<^sup>2) z;
        let df3 = put_col df2 ''sigma_P'' (map (\<lambda>v. v / n) (map2 (+) (map2 (+) px py) pz));
        sl \<leftarrow> num_col df3 ''sl'';
        let mu_s = mean sl;
        let df4 = put_col df3 ''sigma_L'' (map (\<lambda>v. ((v - mu_s) / Ls)\<^sup>2 / n) sl);
        omega_ij \<leftarrow> num_col df4 ''omega_ij'';
        sigma_P \<leftarrow> num_col df4 ''sigma_P'';
        sigma_L \<leftarrow> num_col df4 ''sigma_L'';
        let score = sum_list (map2 (*) omega_ij (map2 (+) sigma_P sigma_L)) * n;
        Some (df4, score)
      })"

section \<open>Output\<close>

text \<open>\<open>str.rfind\<close> for one character: the last index, or -1.\<close>

definition rfind :: "string \<Rightarrow> char \<Rightarrow> int" where
  "rfind p c =
     (if c \<in> set p then int (length p) - 1 - int (length (takeWhile (\<lambda>x. x \<noteq> c) (rev p)))
      else - 1)"

text \<open>
  The loop of \<open>os.path.splitext\<close> that skips the leading dots of the file name: True
  when a character other than a dot stands between \<open>filenameIndex\<close> and \<open>dotIndex\<close>.
\<close>

function has_non_dot :: "string \<Rightarrow> nat \<Rightarrow> nat \<Rightarrow> bool" where
  "has_non_dot p filenameIndex dotIndex =
     (if filenameIndex < dotIndex
      then (if p ! filenameIndex \<noteq> CHR ''.'' then True
            else has_non_dot p (Suc filenameIndex) dotIndex)
      else False)"
  by pat_completeness auto
termination
  by (relation "measure (\<lambda>(p, f, d). d - f)") auto

declare has_non_dot.simps [simp del]

text \<open>\<open>os.path.splitext\<close> with \<open>/\<close> as the separator.\<close>

definition splitext :: "string \<Rightarrow> string \<times> string" where
  "splitext p =
     (let sepIndex = rfind p CHR ''/''; dotIndex = rfind p CHR ''.''
      in if dotIndex > sepIndex \<and> has_non_dot p (nat (sepIndex + 1)) (nat dotIndex)
         then (take (nat dotIndex) p, drop (nat dotIndex) p)
         else (p, []))"

definition output_path :: "string \<Rightarrow> string" where
  "output_path excel_path = fst (splitext excel_path) @ ''_output.xlsx''"

text \<open>\<open>df.to_excel(path, index=False)\<close>: the header row, then the data rows.\<close>

definition to_excel :: "dataframe \<Rightarrow> sheet" where
  "to_excel df = columns df # rows df"

section \<open>The whole run\<close>

definition compute_restraint_score ::
  "world \<Rightarrow> string \<Rightarrow> ((dataframe \<times> real) \<times> world) outcome" where
  "compute_restraint_score w excel_path =
     (case read_lengths w excel_path of
        Inl e \<Rightarrow> Raises e
      | Inr (Ls, Lx, Ly, Lz) \<Rightarrow>
          (case read_restraint_table w excel_path of
             Inl e \<Rightarrow> Raises e
           | Inr df \<Rightarrow>
               (case (Ls, Lx, Ly, Lz) of
                  (Fin ls, Fin lx, Fin ly, Fin lz) \<Rightarrow>
                    (case evaluate ls lx ly lz df of
                       None \<Rightarrow> NonFinite
                     | Some (df', score) \<Rightarrow>
                         (let out_path = output_path excel_path;
                              w1 = w\<lparr>files := (files w)(out_path \<mapsto> to_excel df')\<rparr>;
                              w2 = w1\<lparr>stdout := stdout w1 @
                                     [LineFile excel_path, LineLengths Ls Lx Ly Lz,
                                      LineScore score, LineWrote out_path]\<rparr>
                          in Returns ((df', score), w2)))
                | _ \<Rightarrow> NonFinite)))"

section \<open>Worked examples\<close>

text \<open>
  The specification's example P6: two records, A = (x=0, y=0, z=0, sl=0, wi=1, dij=1.8)
  and B = (x=2, y=0, z=0, sl=2, wi=1, dij=1.8).
\<close>

definition P6_table :: dataframe where
  "P6_table =
     \<lparr>columns = map Text REQUIRED_COLUMNS,
      rows = [map (\<lambda>v. Number (Fin v)) [0, 0, 0, 0, 1, 18 / 10],
              map (\<lambda>v. Number (Fin v)) [2, 0, 0, 2, 1, 18 / 10]]\<rparr>"

text \<open>The same two records with unequal weights, 1 and 3.\<close>

definition weighted_table :: dataframe where
  "weighted_table =
     \<lparr>columns = map Text REQUIRED_COLUMNS,
      rows = [map (\<lambda>v. Number (Fin v)) [0, 0, 0, 0, 1, 18 / 10],
              map (\<lambda>v. Number (Fin v)) [2, 0, 0, 2, 3, 18 / 10]]\<rparr>"

section \<open>The simplified formula\<close>

text \<open>
  The formula of the specification in which the division by \<open>n\<close> inside each dispersion
  term and the final multiplication by \<open>n\<close> are both removed. It follows the
  specification's words, not the source, and is compared with \<open>evaluate\<close> below.
\<close>

definition simplified_score ::
  "real \<Rightarrow> real \<Rightarrow> real \<Rightarrow> real \<Rightarrow> real list \<Rightarrow> real list \<Rightarrow> real list \<Rightarrow> real list
     \<Rightarrow> real list \<Rightarrow> real list \<Rightarrow> real" where
  "simplified_score Ls Lx Ly Lz x y z sl wi dij =
     (\<Sum>i\<leftarrow>[0..<length x].
        wi ! i * exp (- (dij ! i - D0)) *
        (((x ! i - mean x) / Lx)\<^sup>2 + ((y ! i - mean y) / Ly)\<^sup>2 + ((z ! i - mean z) / Lz)\<^sup>2
         + ((sl ! i - mean sl) / Ls)\<^sup>2))"

section \<open>The cleaning, row by row\<close>


text \<open>What the coercion loop does to one row, for the named columns in turn.\<close>

fun coerce_row :: "cell list \<Rightarrow> string list \<Rightarrow> cell list \<Rightarrow> cell list" where
  "coerce_row cols [] r = r"
| "coerce_row cols (c # cs) r =
     (case index_of (Text c) cols of
        None \<Rightarrow> r
      | Some i \<Rightarrow>
          coerce_row cols cs ((fit (length cols) r)[i := Number (to_numeric (cell_at r i))]))"

section \<open>Example workbooks\<close>

text \<open>The six rows above the table: the lengths stand in the second column of rows 1 to 4.\<close>

definition length_block :: "real \<Rightarrow> real \<Rightarrow> real \<Rightarrow> real \<Rightarrow> sheet" where
  "length_block ls lx ly lz =
     [[Text ''parameter'', Text ''value''],
      [Text ''Ls'', Number (Fin ls)],
      [Text ''Lx'', Number (Fin lx)],
      [Text ''Ly'', Number (Fin ly)],
      [Text ''Lz'', Number (Fin lz)],
      [Number NaN, Number NaN]]"

definition P6_sheet :: sheet where
  "P6_sheet = length_block 1 1 1 1 @ columns P6_table # rows P6_table"

definition P6_world :: world where
  "P6_world = \<lparr>files = [''data.xlsx'' \<mapsto> P6_sheet], stdout = []\<rparr>"

text \<open>A grid of exactly five rows and two columns.\<close>

definition bare_world :: world where
  "bare_world =
     \<lparr>files = [''bare.xlsx'' \<mapsto>
         [[Number (Fin 7), Number (Fin 8)],
          [Number NaN, Number (Fin 5)],
          [Text ''width'', Number (Fin 2)],
          [Number (Fin 9), Number (Fin 3)],
          [Text ''Lz'', Number (Fin 4)]]],
      stdout = []\<rparr>"

text \<open>A table without the columns \<open>wi\<close> and \<open>dij\<close>.\<close>

definition short_world :: world where
  "short_world =
     \<lparr>files = [''short.xlsx'' \<mapsto> length_block 1 1 1 1 @
         [map Text [''prot x coor'', ''prot y coor'', ''prot z coor'', ''sl'', ''note''],
          [Number (Fin 0), Number (Fin 0), Number (Fin 0), Number (Fin 0), Text ''first'']]],
      stdout = []\<rparr>"

text \<open>
  Three data rows under an extra column \<open>note\<close>: the second row has a text that is
  not a number in \<open>wi\<close>, the third a blank cell in \<open>dij\<close>.
\<close>

definition dirty_world :: world where
  "dirty_world =
     \<lparr>files = [''dirty.xlsx'' \<mapsto> length_block 5 2 3 4 @
         [map Text (''note'' # REQUIRED_COLUMNS),
          Text ''a'' # map (\<lambda>v. Number (Fin v)) [0, 0, 0, 0, 1, 18 / 10],
          [Text ''b'', Number (Fin 1), Number (Fin 1), Number (Fin 1), Number (Fin 1),
           Text ''high'', Number (Fin 2)],
          [Text ''c'', Number (Fin 2), Number (Fin 0), Number (Fin 0), Number (Fin 2),
           Number (Fin 1)]]],
      stdout = []\<rparr>"



text \<open>The table of the example P6 with the four computed columns.\<close>

definition P6_annotated :: dataframe where
  "P6_annotated =
     \<lparr>columns = map Text (REQUIRED_COLUMNS @ [''fdij'', ''omega_ij'', ''sigma_P'', ''sigma_L'']),
      rows = [map (\<lambda>v. Number (Fin v)) [0, 0, 0, 0, 1, 18 / 10, 1, 1, 1 / 2, 1 / 2],
              map (\<lambda>v. Number (Fin v)) [2, 0, 0, 2, 1, 18 / 10, 1, 1, 1 / 2, 1 / 2]]\<rparr>"

text \<open>The world after the run on the example P6.\<close>

definition P6_world_after :: world where
  "P6_world_after =
     \<lparr>files = [''data.xlsx'' \<mapsto> P6_sheet, ''data_output.xlsx'' \<mapsto> to_excel P6_annotated],
      stdout = [LineFile ''data.xlsx'', LineLengths (Fin 1) (Fin 1) (Fin 1) (Fin 1),
                LineScore 4, LineWrote ''data_output.xlsx'']\<rparr>"

text \<open>
  The records of P6 between two columns that are not required: a \<open>note\<close>, and a column
  that already bears the name \<open>fdij\<close>.
\<close>

definition extra_world :: world where
  "extra_world =
     \<lparr>files = [''extra.xlsx'' \<mapsto> length_block 1 1 1 1 @
         [map Text (''note'' # REQUIRED_COLUMNS @ [''fdij'']),
          Text ''A'' # map (\<lambda>v. Number (Fin v)) [0, 0, 0, 0, 1, 18 / 10] @ [Text ''old''],
          Text ''B'' # map (\<lambda>v. Number (Fin v)) [2, 0, 0, 2, 1, 18 / 10, 99]]],
      stdout = [LineWrote ''earlier'']\<rparr>"

section \<open>Facts about data frames\<close>

lemma index_of_None: "index_of x xs = None \<longleftrightarrow> x \<notin> set xs"
  by (induction xs) auto

lemma index_of_Some: "index_of x xs = Some i \<Longrightarrow> i < length xs \<and> xs ! i = x"
  by (induction xs arbitrary: i) (auto split: if_splits)

lemma index_of_append_other: "y \<noteq> x \<Longrightarrow> index_of y (xs @ [x]) = index_of y xs"
  by (induction xs) auto

lemma index_of_append_new: "x \<notin> set xs \<Longrightarrow> index_of x (xs @ [x]) = Some (length xs)"
  by (induction xs) auto

lemma length_fit: "length (fit w r) = w"
  by (simp add: fit_def)

lemma cell_at_fit: "j < w \<Longrightarrow> cell_at (fit w r) j = cell_at r j"
  by (auto simp: cell_at_def fit_def nth_append)

lemma cell_at_update:
  "i < w \<Longrightarrow> j < w \<Longrightarrow> cell_at ((fit w r)[i := v]) j = (if j = i then v else cell_at r j)"
  using cell_at_fit [of j w r] by (simp add: cell_at_def length_fit)

lemma cell_at_snoc:
  "j \<le> w \<Longrightarrow> cell_at (fit w r @ [v]) j = (if j = w then v else cell_at r j)"
  using cell_at_fit [of j w r] by (auto simp: cell_at_def length_fit nth_append)

lemma map_zip_left:
  "length vs = length rs \<Longrightarrow> map (\<lambda>x. f (fst x)) (zip rs vs) = map f rs"
  by (induction rs vs rule: list_induct2') auto

lemma map_zip_right:
  "length vs = length rs \<Longrightarrow> map (\<lambda>x. g (snd x)) (zip rs vs) = map g vs"
  by (induction rs vs rule: list_induct2') auto

lemma columns_set_col:
  "columns (set_col df c vs) =
     (if Text c \<in> set (columns df) then columns df else columns df @ [Text c])"
  by (cases "index_of (Text c) (columns df)")
     (auto simp: set_col_def Let_def index_of_None [symmetric])

lemma length_rows_set_col:
  "length vs = length (rows df) \<Longrightarrow> length (rows (set_col df c vs)) = length (rows df)"
  by (auto simp: set_col_def Let_def split: option.splits)

lemma get_col_set_col_same:
  assumes "length vs = length (rows df)"
  shows "get_col (set_col df c vs) c = Some vs"
proof (cases "index_of (Text c) (columns df)")
  case None
  then have "Text c \<notin> set (columns df)" by (simp add: index_of_None)
  then show ?thesis using assms None
    by (simp add: get_col_def set_col_def Let_def index_of_append_new comp_def case_prod_unfold
        cell_at_snoc map_zip_right [where g = "\<lambda>v. v", simplified])
next
  case (Some i)
  then have "i < length (columns df)" by (auto dest: index_of_Some)
  then show ?thesis using assms Some
    by (simp add: get_col_def set_col_def Let_def comp_def case_prod_unfold
        cell_at_update map_zip_right [where g = "\<lambda>v. v", simplified])
qed

lemma get_col_set_col_other:
  assumes "length vs = length (rows df)" and "c' \<noteq> c"
  shows "get_col (set_col df c vs) c' = get_col df c'"
proof (cases "index_of (Text c) (columns df)")
  case None
  show ?thesis
  proof (cases "index_of (Text c') (columns df)")
    case N: None
    then show ?thesis using assms None
      by (simp add: get_col_def set_col_def Let_def index_of_append_other)
  next
    case (Some j)
    then have "j < length (columns df)" by (auto dest: index_of_Some)
    then show ?thesis using assms None Some
      by (simp add: get_col_def set_col_def Let_def index_of_append_other comp_def
          case_prod_unfold cell_at_snoc map_zip_left [where f = "\<lambda>r. cell_at r j"])
  qed
next
  case (Some i)
  show ?thesis
  proof (cases "index_of (Text c') (columns df)")
    case None
    then show ?thesis using assms Some
      by (simp add: get_col_def set_col_def Let_def)
  next
    case S: (Some j)
    then have j: "j < length (columns df)" "columns df ! j = Text c'" by (auto dest: index_of_Some)
    from Some have i: "i < length (columns df)" "columns df ! i = Text c" by (auto dest: index_of_Some)
    from i j assms have "j \<noteq> i" by auto
    then show ?thesis using assms Some S i j
      by (simp add: get_col_def set_col_def Let_def comp_def
          case_prod_unfold cell_at_update map_zip_left [where f = "\<lambda>r. cell_at r j"])
  qed
qed

lemma those_map_fin: "those (map fin (map (\<lambda>v. Number (Fin v)) vs)) = Some vs"
  by (induction vs) auto

lemma those_length: "those xs = Some ys \<Longrightarrow> length ys = length xs"
  by (induction xs arbitrary: ys) (auto split: option.splits)

lemma num_col_length: "num_col df c = Some xs \<Longrightarrow> length xs = length (rows df)"
  by (auto simp: num_col_def get_col_def split: option.splits dest!: those_length)

lemma length_rows_put_col:
  "length vs = length (rows df) \<Longrightarrow> length (rows (put_col df c vs)) = length (rows df)"
  by (simp add: put_col_def length_rows_set_col)

lemma num_col_put_col_same:
  "length vs = length (rows df) \<Longrightarrow> num_col (put_col df c vs) c = Some vs"
  by (simp add: num_col_def put_col_def get_col_set_col_same those_map_fin del: map_map)

lemma num_col_put_col_other:
  "length vs = length (rows df) \<Longrightarrow> c' \<noteq> c \<Longrightarrow> num_col (put_col df c vs) c' = num_col df c'"
  by (simp add: num_col_def put_col_def get_col_set_col_other)

lemma get_col_put_col_other:
  "length vs = length (rows df) \<Longrightarrow> c' \<noteq> c \<Longrightarrow> get_col (put_col df c vs) c' = get_col df c'"
  by (simp add: put_col_def get_col_set_col_other)

section \<open>The cleaning, row by row: facts\<close>





lemma length_coerce_row:
  "length r = length cols \<Longrightarrow> length (coerce_row cols cs r) = length cols"
  by (induction cs arbitrary: r) (auto simp: length_fit split: option.splits)







lemma missing_columns_aux:
  assumes "read_excel_table w p TABLE_SKIPROWS = Inr df"
    and "{c \<in> set REQUIRED_COLUMNS. Text c \<notin> set (columns df)} \<noteq> {}"
  shows "read_restraint_table w p =
     Inl (ValueError (MissingRequiredColumns
            (filter (\<lambda>c. Text c \<notin> set (columns df)) REQUIRED_COLUMNS)))"
proof -
  from assms(2) have "filter (\<lambda>c. Text c \<notin> set (columns df)) REQUIRED_COLUMNS \<noteq> []"
    by (auto simp: filter_empty_conv)
  then show ?thesis by (simp add: read_restraint_table_def assms(1) Let_def)
qed

section \<open>Reading the lengths: facts\<close>

lemma length_le_width: "r \<in> set g \<Longrightarrow> length r \<le> width g"
  unfolding width_def by (induction g) auto

lemma raw_cell:
  assumes "files w p = Some g" and "r < length g" and "c < length (g ! r)"
  shows "\<exists>sheet. read_excel_raw w p = Inr sheet \<and> iat sheet r c = Inr (g ! r ! c)"
proof -
  have "g ! r \<in> set g" using assms(2) by simp
  then have "length (g ! r) \<le> width g" by (rule length_le_width)
  with assms(3) have c: "c < width g" by simp
  then have "fit (width g) (g ! r) ! c = g ! r ! c"
    using assms(3) by (simp add: fit_def nth_append)
  then show ?thesis
    using assms c by (simp add: read_excel_raw_def iat_def length_fit)
qed

lemma read_lengths_cells:
  assumes "files w p = Some g" and "5 \<le> length g" and "\<forall>r\<in>set g. 2 \<le> length r"
    and "g ! 1 ! 1 = Number (Fin ls)" and "g ! 2 ! 1 = Number (Fin lx)"
    and "g ! 3 ! 1 = Number (Fin ly)" and "g ! 4 ! 1 = Number (Fin lz)"
  shows "read_lengths w p = Inr (Fin ls, Fin lx, Fin ly, Fin lz)"
proof -
  have row: "1 < length (g ! r)" if "r < 5" for r
  proof -
    from that assms(2) have "g ! r \<in> set g" by simp
    with assms(3) show ?thesis by fastforce
  qed
  obtain sheet where sh: "read_excel_raw w p = Inr sheet"
    using assms(1) by (simp add: read_excel_raw_def)
  have cell: "iat sheet r 1 = Inr (g ! r ! 1)" if "r < 5" for r
    using raw_cell [OF assms(1), of r 1] that assms(2) row [OF that] sh by auto
  have "lengths_cell sheet ''Ls'' = Inr (Fin ls)" "lengths_cell sheet ''Lx'' = Inr (Fin lx)"
    "lengths_cell sheet ''Ly'' = Inr (Fin ly)" "lengths_cell sheet ''Lz'' = Inr (Fin lz)"
    using cell [of 1] cell [of 2] cell [of 3] cell [of 4] assms(4-7)
    by (simp_all add: lengths_cell_def LENGTH_CELLS_def py_float_def)
  then show ?thesis by (simp add: read_lengths_def sh)
qed

section \<open>The evaluator, column by column\<close>

lemma evaluate_columns:
  assumes "num_col df ''prot x coor'' = Some x" and "num_col df ''prot y coor'' = Some y"
    and "num_col df ''prot z coor'' = Some z" and "num_col df ''sl'' = Some sl"
    and "num_col df ''wi'' = Some wi" and "num_col df ''dij'' = Some dij"
    and "rows df \<noteq> []" and "Ls \<noteq> 0" and "Lx \<noteq> 0" and "Ly \<noteq> 0" and "Lz \<noteq> 0"
  defines "n \<equiv> real (length (rows df))"
  defines "fd \<equiv> map (\<lambda>d. exp (- (d - D0))) dij"
  defines "om \<equiv> map2 (*) wi fd"
  defines "sp \<equiv> map (\<lambda>v. v / n)
      (map2 (+) (map2 (+) (map (\<lambda>v. ((v - mean x) / Lx)\<^sup>2) x)
                           (map (\<lambda>v. ((v - mean y) / Ly)\<^sup>2) y))
                (map (\<lambda>v. ((v - mean z) / Lz)\<^sup>2) z))"
  defines "sg \<equiv> map (\<lambda>v. ((v - mean sl) / Ls)\<^sup>2 / n) sl"
  shows "evaluate Ls Lx Ly Lz df =
     Some (put_col (put_col (put_col (put_col df ''fdij'' fd) ''omega_ij'' om) ''sigma_P'' sp)
             ''sigma_L'' sg,
           sum_list (map2 (*) om (map2 (+) sp sg)) * n)"
proof -
  note len = assms(1-6) [THEN num_col_length]
  define df1 where "df1 = put_col df ''fdij'' fd"
  define df2 where "df2 = put_col df1 ''omega_ij'' om"
  define df3 where "df3 = put_col df2 ''sigma_P'' sp"
  define df4 where "df4 = put_col df3 ''sigma_L'' sg"
  have l1: "length fd = length (rows df)" by (simp add: fd_def len)
  have l2: "length om = length (rows df1)"
    by (simp add: om_def len l1 df1_def length_rows_put_col)
  have l3: "length sp = length (rows df2)"
    by (simp add: sp_def len l1 l2 df1_def df2_def length_rows_put_col)
  have l4: "length sg = length (rows df3)"
    using l1 l2 l3 by (simp add: sg_def len df1_def df2_def df3_def length_rows_put_col)
  have a1: "num_col df1 ''wi'' = Some wi" "num_col df1 ''fdij'' = Some fd"
    "num_col df1 ''prot x coor'' = Some x" "num_col df1 ''prot y coor'' = Some y"
    "num_col df1 ''prot z coor'' = Some z" "num_col df1 ''sl'' = Some sl"
    unfolding df1_def using l1 assms(1-6)
    by (simp_all add: num_col_put_col_same num_col_put_col_other)
  have a2: "num_col df2 ''omega_ij'' = Some om" "num_col df2 ''fdij'' = Some fd"
    "num_col df2 ''prot x coor'' = Some x" "num_col df2 ''prot y coor'' = Some y"
    "num_col df2 ''prot z coor'' = Some z" "num_col df2 ''sl'' = Some sl"
    unfolding df2_def using l2 a1
    by (simp_all add: num_col_put_col_same num_col_put_col_other)
  have a3: "num_col df3 ''omega_ij'' = Some om" "num_col df3 ''sigma_P'' = Some sp"
    "num_col df3 ''sl'' = Some sl"
    unfolding df3_def using l3 a2
    by (simp_all add: num_col_put_col_same num_col_put_col_other)
  have a4: "num_col df4 ''omega_ij'' = Some om" "num_col df4 ''sigma_P'' = Some sp"
    "num_col df4 ''sigma_L'' = Some sg"
    unfolding df4_def using l4 a3
    by (simp_all add: num_col_put_col_same num_col_put_col_other)
  have "evaluate Ls Lx Ly Lz df = Some (df4, sum_list (map2 (*) om (map2 (+) sp sg)) * n)"
    unfolding evaluate_def Let_def
    using assms(7-11)
    by (simp only: if_False assms(1-6) bind.bind_lunit simp_thms
        fd_def [symmetric] df1_def [symmetric] a1 om_def [symmetric] df2_def [symmetric] a2
        n_def [symmetric] sp_def [symmetric] df3_def [symmetric] a3 sg_def [symmetric]
        df4_def [symmetric] a4)
  then show ?thesis by (simp only: df4_def df3_def df2_def df1_def)
qed

lemma sum_list_map2_nth:
  "length xs = length ys \<Longrightarrow> sum_list (map2 f xs ys) = (\<Sum>i<length xs. f (xs ! i) (ys ! i))"
  by (simp add: sum_list_sum_nth atLeast0LessThan)

lemma mean_nth: "mean xs = (\<Sum>i<length xs. xs ! i) / real (length xs)"
  by (simp add: mean_def sum_list_sum_nth atLeast0LessThan)

lemma map_nth_eq: "length xs = n \<Longrightarrow> (\<And>i. i < n \<Longrightarrow> xs ! i = f i) \<Longrightarrow> xs = map f [0..<n]"
  by (auto intro!: nth_equalityI)

lemma P6_cols:
  "num_col P6_table ''prot x coor'' = Some [0, 2]"
  "num_col P6_table ''prot y coor'' = Some [0, 0]"
  "num_col P6_table ''prot z coor'' = Some [0, 0]"
  "num_col P6_table ''sl'' = Some [0, 2]"
  "num_col P6_table ''wi'' = Some [1, 1]"
  "num_col P6_table ''dij'' = Some [18 / 10, 18 / 10]"
  by (simp_all add: P6_table_def REQUIRED_COLUMNS_def num_col_def get_col_def cell_at_def)


lemma annotated_columns:
  assumes "length fd = length (rows df)" and "length om = length (rows df)"
    and "length sp = length (rows df)" and "length sg = length (rows df)"
  defines "df4 \<equiv> put_col (put_col (put_col (put_col df ''fdij'' fd) ''omega_ij'' om)
                          ''sigma_P'' sp) ''sigma_L'' sg"
  shows "num_col df4 ''fdij'' = Some fd" and "num_col df4 ''omega_ij'' = Some om"
    and "num_col df4 ''sigma_P'' = Some sp" and "num_col df4 ''sigma_L'' = Some sg"
  unfolding df4_def using assms(1-4)
  by (simp_all add: num_col_put_col_same num_col_put_col_other length_rows_put_col)

lemma evaluate_indexed:
  fixes x y z sl wi dij :: "real list"
  assumes "num_col df ''prot x coor'' = Some x" and "num_col df ''prot y coor'' = Some y"
    and "num_col df ''prot z coor'' = Some z" and "num_col df ''sl'' = Some sl"
    and "num_col df ''wi'' = Some wi" and "num_col df ''dij'' = Some dij"
    and "rows df \<noteq> []" and "Ls \<noteq> 0" and "Lx \<noteq> 0" and "Ly \<noteq> 0" and "Lz \<noteq> 0"
  defines "n \<equiv> length (rows df)"
  defines "mu_x \<equiv> (\<Sum>i<n. x ! i) / real n"
  defines "mu_y \<equiv> (\<Sum>i<n. y ! i) / real n"
  defines "mu_z \<equiv> (\<Sum>i<n. z ! i) / real n"
  defines "mu_s \<equiv> (\<Sum>i<n. sl ! i) / real n"
  defines "fdij \<equiv> \<lambda>i. exp (- (dij ! i - 18 / 10))"
  defines "omega_ij \<equiv> \<lambda>i. wi ! i * fdij i"
  defines "sigma_P \<equiv> \<lambda>i. (((x ! i - mu_x) / Lx)\<^sup>2 + ((y ! i - mu_y) / Ly)\<^sup>2
                              + ((z ! i - mu_z) / Lz)\<^sup>2) / real n"
  defines "sigma_L \<equiv> \<lambda>i. ((sl ! i - mu_s) / Ls)\<^sup>2 / real n"
  shows "\<exists>df'. evaluate Ls Lx Ly Lz df =
             Some (df', real n * (\<Sum>i<n. omega_ij i * (sigma_P i + sigma_L i)))
           \<and> num_col df' ''fdij'' = Some (map fdij [0..<n])
           \<and> num_col df' ''omega_ij'' = Some (map omega_ij [0..<n])
           \<and> num_col df' ''sigma_P'' = Some (map sigma_P [0..<n])
           \<and> num_col df' ''sigma_L'' = Some (map sigma_L [0..<n])"
proof -
  note len = assms(1-6) [THEN num_col_length, folded n_def]
  define fd where "fd = map (\<lambda>d. exp (- (d - D0))) dij"
  define om where "om = map2 (*) wi fd"
  define sp where "sp = map (\<lambda>v. v / real (length (rows df)))
      (map2 (+) (map2 (+) (map (\<lambda>v. ((v - mean x) / Lx)\<^sup>2) x)
                           (map (\<lambda>v. ((v - mean y) / Ly)\<^sup>2) y))
                (map (\<lambda>v. ((v - mean z) / Lz)\<^sup>2) z))"
  define sg where "sg = map (\<lambda>v. ((v - mean sl) / Ls)\<^sup>2 / real (length (rows df))) sl"
  define df1 where "df1 = put_col df ''fdij'' fd"
  define df2 where "df2 = put_col df1 ''omega_ij'' om"
  define df3 where "df3 = put_col df2 ''sigma_P'' sp"
  define df4 where "df4 = put_col df3 ''sigma_L'' sg"
  have ev: "evaluate Ls Lx Ly Lz df = Some (df4, sum_list (map2 (*) om (map2 (+) sp sg)) * real n)"
    unfolding df4_def df3_def df2_def df1_def sg_def sp_def om_def fd_def n_def
    by (rule evaluate_columns [OF assms(1-11)])
  have means: "mean x = mu_x" "mean y = mu_y" "mean z = mu_z" "mean sl = mu_s"
    by (simp_all add: mean_nth len mu_x_def mu_y_def mu_z_def mu_s_def)
  have fd: "fd = map fdij [0..<n]"
    by (rule map_nth_eq) (simp_all add: fd_def len fdij_def D0_def)
  have om: "om = map omega_ij [0..<n]"
    by (rule map_nth_eq) (simp_all add: om_def fd len omega_ij_def)
  have sp: "sp = map sigma_P [0..<n]"
    by (rule map_nth_eq) (simp_all add: sp_def len sigma_P_def means n_def [symmetric])
  have sg: "sg = map sigma_L [0..<n]"
    by (rule map_nth_eq) (simp_all add: sg_def len sigma_L_def means n_def [symmetric])
  have l: "length fd = length (rows df)" "length om = length (rows df)"
    "length sp = length (rows df)" "length sg = length (rows df)"
    by (simp_all add: fd om sp sg n_def)
  have cs: "num_col df4 ''fdij'' = Some fd" "num_col df4 ''omega_ij'' = Some om"
    "num_col df4 ''sigma_P'' = Some sp" "num_col df4 ''sigma_L'' = Some sg"
    unfolding df4_def df3_def df2_def df1_def by (rule annotated_columns [OF l])+
  have score: "sum_list (map2 (*) om (map2 (+) sp sg)) * real n
      = real n * (\<Sum>i<n. omega_ij i * (sigma_P i + sigma_L i))"
    by (simp add: sum_list_map2_nth om sp sg)
  have "evaluate Ls Lx Ly Lz df =
          Some (df4, real n * (\<Sum>i<n. omega_ij i * (sigma_P i + sigma_L i)))"
    using ev by (simp only: score)
  moreover note cs [unfolded fd om sp sg]
  ultimately show ?thesis
    by blast
qed

section \<open>Consequences of the indexed form\<close>

lemma evaluate_simplified:
  assumes "num_col df ''prot x coor'' = Some x" and "num_col df ''prot y coor'' = Some y"
    and "num_col df ''prot z coor'' = Some z" and "num_col df ''sl'' = Some sl"
    and "num_col df ''wi'' = Some wi" and "num_col df ''dij'' = Some dij"
    and "rows df \<noteq> []" and "Ls \<noteq> 0" and "Lx \<noteq> 0" and "Ly \<noteq> 0" and "Lz \<noteq> 0"
  shows "map_option snd (evaluate Ls Lx Ly Lz df) =
         Some (simplified_score Ls Lx Ly Lz x y z sl wi dij)"
proof -
  note len = assms(1-6) [THEN num_col_length]
  define n where "n = length (rows df)"
  have n: "real n \<noteq> 0" using assms(7) by (simp add: n_def)
  have "real n * (\<Sum>i<n. f i * (a i / real n + b i / real n)) = (\<Sum>i<n. f i * (a i + b i))"
    for f a b :: "nat \<Rightarrow> real"
  proof -
    have "real n * (f i * (a i / real n + b i / real n)) = f i * (a i + b i)" for i
      using n by (simp add: field_simps)
    then show ?thesis by (simp only: sum_distrib_left)
  qed
  note canc = this
  from evaluate_indexed [OF assms] obtain df' where
    "evaluate Ls Lx Ly Lz df = Some (df', real n * (\<Sum>i<n. wi ! i * exp (- (dij ! i - 18 / 10)) *
       ((((x ! i - (\<Sum>i<n. x ! i) / real n) / Lx)\<^sup>2 + ((y ! i - (\<Sum>i<n. y ! i) / real n) / Ly)\<^sup>2
                              + ((z ! i - (\<Sum>i<n. z ! i) / real n) / Lz)\<^sup>2) / real n
      + ((sl ! i - (\<Sum>i<n. sl ! i) / real n) / Ls)\<^sup>2 / real n)))"
    unfolding n_def by blast
  then show ?thesis
    unfolding canc
    by (simp add: simplified_score_def mean_nth len n_def D0_def sum_list_sum_nth
        atLeast0LessThan interv_sum_list_conv_sum_set_nat add_divide_distrib algebra_simps)
qed


lemma evaluate_missing:
  assumes "num_col df ''prot x coor'' = None \<or> num_col df ''prot y coor'' = None
    \<or> num_col df ''prot z coor'' = None \<or> num_col df ''sl'' = None
    \<or> num_col df ''wi'' = None \<or> num_col df ''dij'' = None"
  shows "evaluate Ls Lx Ly Lz df = None"
proof (cases "Ls = 0 \<or> Lx = 0 \<or> Ly = 0 \<or> Lz = 0 \<or> rows df = []")
  case True
  then show ?thesis by (simp add: evaluate_def)
next
  case False
  then have gf: "(Ls = 0 \<or> Lx = 0 \<or> Ly = 0 \<or> Lz = 0 \<or> rows df = []) = False" by simp
  show ?thesis
  proof (cases "num_col df ''dij''")
    case None
    show ?thesis
      by (simp only: evaluate_def Let_def gf if_False None bind.bind_lzero)
  next
    case (Some dij)
    define fd where "fd = map (\<lambda>d. exp (- (d - D0))) dij"
    define df1 where "df1 = put_col df ''fdij'' fd"
    have l1: "length fd = length (rows df)"
      using num_col_length [OF Some] by (simp add: fd_def)
    have r1: "length (rows df1) = length (rows df)"
      unfolding df1_def by (rule length_rows_put_col [OF l1])
    have a1: "num_col df1 c = num_col df c" if "c \<noteq> ''fdij''" for c
      unfolding df1_def using l1 that by (rule num_col_put_col_other)
    have f1: "num_col df1 ''fdij'' = Some fd"
      unfolding df1_def using l1 by (rule num_col_put_col_same)
    have w1: "num_col df1 ''wi'' = num_col df ''wi''" by (rule a1) simp
    show ?thesis
    proof (cases "num_col df ''wi''")
      case None
      show ?thesis
        by (simp only: evaluate_def Let_def gf if_False Some bind.bind_lunit
            fd_def [symmetric] df1_def [symmetric] w1 None bind.bind_lzero)
    next
      case wi: (Some wi)
      define om where "om = map2 (*) wi fd"
      define df2 where "df2 = put_col df1 ''omega_ij'' om"
      have l2: "length om = length (rows df1)"
        using num_col_length [OF wi] l1 r1 by (simp add: om_def)
      have a2: "num_col df2 c = num_col df c" if "c \<noteq> ''fdij''" "c \<noteq> ''omega_ij''" for c
        unfolding df2_def using l2 that by (simp add: num_col_put_col_other a1)
      have r2: "length (rows df2) = length (rows df)"
        unfolding df2_def using length_rows_put_col [OF l2] r1 by simp
      have x2: "num_col df2 ''prot x coor'' = num_col df ''prot x coor''"
        and y2: "num_col df2 ''prot y coor'' = num_col df ''prot y coor''"
        and z2: "num_col df2 ''prot z coor'' = num_col df ''prot z coor''"
        by (rule a2; simp)+
      note start = evaluate_def Let_def gf if_False Some bind.bind_lunit
            fd_def [symmetric] df1_def [symmetric] w1 wi f1 om_def [symmetric]
            df2_def [symmetric] x2 y2 z2
      show ?thesis
      proof (cases "num_col df ''prot x coor''")
        case None
        show ?thesis by (simp only: start None bind.bind_lzero)
      next
        case x: (Some x)
        show ?thesis
        proof (cases "num_col df ''prot y coor''")
          case None
          show ?thesis by (simp only: start x None bind.bind_lzero)
        next
          case y: (Some y)
          show ?thesis
          proof (cases "num_col df ''prot z coor''")
            case None
            show ?thesis by (simp only: start x y None bind.bind_lzero)
          next
            case z: (Some z)
            define sp where "sp = map (\<lambda>v. v / real (length (rows df)))
              (map2 (+) (map2 (+) (map (\<lambda>v. ((v - mean x) / Lx)\<^sup>2) x)
                           (map (\<lambda>v. ((v - mean y) / Ly)\<^sup>2) y))
                (map (\<lambda>v. ((v - mean z) / Lz)\<^sup>2) z))"
            have l3: "length sp = length (rows df2)"
              using num_col_length [OF x] num_col_length [OF y] num_col_length [OF z] r2
              by (simp add: sp_def)
            have "num_col (put_col df2 ''sigma_P'' sp) ''sl'' = num_col df ''sl''"
              using l3 by (simp add: num_col_put_col_other a2)
            moreover from assms Some wi x y z have "num_col df ''sl'' = None" by simp
            ultimately have s3: "num_col (put_col df2 ''sigma_P'' sp) ''sl'' = None" by simp
            show ?thesis
              by (simp only: start x y z sp_def [symmetric] s3 bind.bind_lzero)
          qed
        qed
      qed
    qed
  qed
qed

lemma get_col_rows_length: "get_col df c = Some vs \<Longrightarrow> length vs = length (rows df)"
  by (auto simp: get_col_def split: option.splits)

lemma evaluate_score_cong:
  assumes "\<forall>c\<in>set REQUIRED_COLUMNS. get_col df1 c = get_col df2 c"
  shows "map_option snd (evaluate Ls Lx Ly Lz df1) = map_option snd (evaluate Ls Lx Ly Lz df2)"
proof -
  from assms have g: "get_col df1 c = get_col df2 c"
    if "c \<in> {''prot x coor'', ''prot y coor'', ''prot z coor'', ''sl'', ''wi'', ''dij''}" for c
    using that by (auto simp: REQUIRED_COLUMNS_def)
  have nc: "num_col df1 c = num_col df2 c"
    if "c \<in> {''prot x coor'', ''prot y coor'', ''prot z coor'', ''sl'', ''wi'', ''dij''}" for c
    using g [OF that] by (simp add: num_col_def)
  show ?thesis
  proof (cases "num_col df1 ''prot x coor'' = None \<or> num_col df1 ''prot y coor'' = None
    \<or> num_col df1 ''prot z coor'' = None \<or> num_col df1 ''sl'' = None
    \<or> num_col df1 ''wi'' = None \<or> num_col df1 ''dij'' = None")
    case True
    then have "num_col df2 ''prot x coor'' = None \<or> num_col df2 ''prot y coor'' = None
    \<or> num_col df2 ''prot z coor'' = None \<or> num_col df2 ''sl'' = None
    \<or> num_col df2 ''wi'' = None \<or> num_col df2 ''dij'' = None"
      by (simp add: nc)
    with True show ?thesis by (simp add: evaluate_missing)
  next
    case False
    then obtain x y z sl wi dij where c1:
      "num_col df1 ''prot x coor'' = Some x" "num_col df1 ''prot y coor'' = Some y"
      "num_col df1 ''prot z coor'' = Some z" "num_col df1 ''sl'' = Some sl"
      "num_col df1 ''wi'' = Some wi" "num_col df1 ''dij'' = Some dij"
      by auto
    then have c2:
      "num_col df2 ''prot x coor'' = Some x" "num_col df2 ''prot y coor'' = Some y"
      "num_col df2 ''prot z coor'' = Some z" "num_col df2 ''sl'' = Some sl"
      "num_col df2 ''wi'' = Some wi" "num_col df2 ''dij'' = Some dij"
      by (simp_all add: nc [symmetric])
    have r: "length (rows df1) = length (rows df2)"
      using num_col_length [OF c1(1)] num_col_length [OF c2(1)] by simp
    show ?thesis
    proof (cases "Ls = 0 \<or> Lx = 0 \<or> Ly = 0 \<or> Lz = 0 \<or> rows df1 = []")
      case True
      then have "Ls = 0 \<or> Lx = 0 \<or> Ly = 0 \<or> Lz = 0 \<or> rows df2 = []"
        using r by auto
      with True show ?thesis by (simp add: evaluate_def)
    next
      case False
      then have nz: "Ls \<noteq> 0" "Lx \<noteq> 0" "Ly \<noteq> 0" "Lz \<noteq> 0" and r1: "rows df1 \<noteq> []" by auto
      from r1 r have r2: "rows df2 \<noteq> []" by auto
      show ?thesis
        by (simp only: evaluate_simplified [OF c1 r1 nz] evaluate_simplified [OF c2 r2 nz])
    qed
  qed
qed

section \<open>The score formula\<close>



lemma weighted_cols:
  "num_col weighted_table ''prot x coor'' = Some [0, 2]"
  "num_col weighted_table ''prot y coor'' = Some [0, 0]"
  "num_col weighted_table ''prot z coor'' = Some [0, 0]"
  "num_col weighted_table ''sl'' = Some [0, 2]"
  "num_col weighted_table ''wi'' = Some [1, 3]"
  "num_col weighted_table ''dij'' = Some [18 / 10, 18 / 10]"
  by (simp_all add: weighted_table_def REQUIRED_COLUMNS_def num_col_def get_col_def cell_at_def)

lemma weighted_rows: "rows weighted_table \<noteq> []"
  by (simp add: weighted_table_def)

section \<open>The multiplication by n\<close>

text \<open>
  C2, as stated: some cleaned table with \<open>n \<ge> 1\<close> records has a score that differs, in
  exact arithmetic, from the simplified formula. No such table exists: the statement is
  refuted for all cleaned tables and all nonzero lengths.
\<close>

theorem rescaling_differs_refuted:
  "\<not> (\<exists>df Ls Lx Ly Lz x y z sl wi dij.
        num_col df ''prot x coor'' = Some x \<and> num_col df ''prot y coor'' = Some y
        \<and> num_col df ''prot z coor'' = Some z \<and> num_col df ''sl'' = Some sl
        \<and> num_col df ''wi'' = Some wi \<and> num_col df ''dij'' = Some dij
        \<and> rows df \<noteq> [] \<and> Ls \<noteq> 0 \<and> Lx \<noteq> 0 \<and> Ly \<noteq> 0 \<and> Lz \<noteq> 0
        \<and> map_option snd (evaluate Ls Lx Ly Lz df)
            \<noteq> Some (simplified_score Ls Lx Ly Lz x y z sl wi dij))"
  using evaluate_simplified by blast

text \<open>
  C2, amended: for every cleaned table with \<open>n \<ge> 1\<close> records and nonzero lengths, the
  score \<open>n * (\<Sum>i. omega_ij i * (sigma_P i + sigma_L i))\<close> is equal, in exact arithmetic, to
  the simplified formula: \<open>n\<close> is the same for every record, so the final multiplication
  cancels the divisions whatever the weights are.
\<close>

theorem score_equals_simplified:
  assumes "num_col df ''prot x coor'' = Some x" and "num_col df ''prot y coor'' = Some y"
    and "num_col df ''prot z coor'' = Some z" and "num_col df ''sl'' = Some sl"
    and "num_col df ''wi'' = Some wi" and "num_col df ''dij'' = Some dij"
    and "rows df \<noteq> []" and "Ls \<noteq> 0" and "Lx \<noteq> 0" and "Ly \<noteq> 0" and "Lz \<noteq> 0"
  shows "map_option snd (evaluate Ls Lx Ly Lz df) =
         Some (simplified_score Ls Lx Ly Lz x y z sl wi dij)"
  using assms by (rule evaluate_simplified)

theorem score_equals_simplified_witness:
  "num_col weighted_table ''prot x coor'' = Some [0, 2]
   \<and> num_col weighted_table ''prot y coor'' = Some [0, 0]
   \<and> num_col weighted_table ''prot z coor'' = Some [0, 0]
   \<and> num_col weighted_table ''sl'' = Some [0, 2]
   \<and> num_col weighted_table ''wi'' = Some [1, 3]
   \<and> num_col weighted_table ''dij'' = Some [18 / 10, 18 / 10]
   \<and> rows weighted_table \<noteq> [] \<and> (1::real) \<noteq> 0
   \<and> map_option snd (evaluate 1 1 1 1 weighted_table) = Some 8
   \<and> simplified_score 1 1 1 1 [0, 2] [0, 0] [0, 0] [0, 2] [1, 3] [18 / 10, 18 / 10] = 8"
proof -
  have nz: "(1::real) \<noteq> 0" by simp
  have s: "simplified_score 1 1 1 1 [0, 2] [0, 0] [0, 0] [0, 2] [1, 3] [18 / 10, 18 / 10] = 8"
    by (simp add: simplified_score_def mean_def D0_def upt_rec [of 0] upt_rec [of 1]
        power2_eq_square)
  show ?thesis
    using score_equals_simplified [OF weighted_cols weighted_rows nz nz nz nz] weighted_cols
      weighted_rows s
    by simp
qed

section \<open>Sign of the score\<close>



section \<open>Facts about the example workbooks\<close>

lemma bare_file:
  "files bare_world ''bare.xlsx'' =
     Some [[Number (Fin 7), Number (Fin 8)],
          [Number NaN, Number (Fin 5)],
          [Text ''width'', Number (Fin 2)],
          [Number (Fin 9), Number (Fin 3)],
          [Text ''Lz'', Number (Fin 4)]]"
  by (simp add: bare_world_def)

lemma dirty_file:
  "files dirty_world ''dirty.xlsx'' = Some (length_block 5 2 3 4 @
         [map Text (''note'' # REQUIRED_COLUMNS),
          Text ''a'' # map (\<lambda>v. Number (Fin v)) [0, 0, 0, 0, 1, 18 / 10],
          [Text ''b'', Number (Fin 1), Number (Fin 1), Number (Fin 1), Number (Fin 1),
           Text ''high'', Number (Fin 2)],
          [Text ''c'', Number (Fin 2), Number (Fin 0), Number (Fin 0), Number (Fin 2),
           Number (Fin 1)]])"
  by (simp add: dirty_world_def)

lemma short_table:
  "read_excel_table short_world ''short.xlsx'' TABLE_SKIPROWS =
     Inr \<lparr>columns = map Text [''prot x coor'', ''prot y coor'', ''prot z coor'', ''sl'', ''note''],
          rows = [[Number (Fin 0), Number (Fin 0), Number (Fin 0), Number (Fin 0), Text ''first'']]\<rparr>"
  by (simp add: read_excel_table_def read_excel_raw_def short_world_def length_block_def
      TABLE_SKIPROWS_def width_def fit_def)








lemma P6_read_table: "read_excel_table P6_world ''data.xlsx'' TABLE_SKIPROWS = Inr P6_table"
  by (simp add: read_excel_table_def read_excel_raw_def P6_world_def P6_sheet_def length_block_def
      TABLE_SKIPROWS_def width_def P6_table_def REQUIRED_COLUMNS_def fit_def)

lemma P6_clean_table: "read_restraint_table P6_world ''data.xlsx'' = Inr P6_table"
  by (simp add: read_restraint_table_def P6_read_table Let_def)
    (simp add: P6_table_def REQUIRED_COLUMNS_def get_col_def set_col_def cell_at_def fit_def
       to_numeric_def dropna_def empty_df_def)

lemma P6_lengths: "read_lengths P6_world ''data.xlsx'' = Inr (Fin 1, Fin 1, Fin 1, Fin 1)"
  by (simp add: read_lengths_def read_excel_raw_def P6_world_def P6_sheet_def length_block_def
      width_def P6_table_def REQUIRED_COLUMNS_def fit_def lengths_cell_def LENGTH_CELLS_def
      iat_def py_float_def)

lemma P6_evaluate: "evaluate 1 1 1 1 P6_table = Some (P6_annotated, 4)"
proof -
  have r: "rows P6_table \<noteq> []" and l: "length (rows P6_table) = 2"
    by (simp_all add: P6_table_def)
  have "evaluate 1 1 1 1 P6_table =
     Some (put_col (put_col (put_col (put_col P6_table ''fdij'' [1, 1]) ''omega_ij'' [1, 1])
             ''sigma_P'' [1 / 2, 1 / 2]) ''sigma_L'' [1 / 2, 1 / 2], 4)"
    using evaluate_columns [OF P6_cols r, of 1 1 1 1]
    by (simp add: l mean_def D0_def power2_eq_square)
  also have "put_col (put_col (put_col (put_col P6_table ''fdij'' [1, 1]) ''omega_ij'' [1, 1])
             ''sigma_P'' [1 / 2, 1 / 2]) ''sigma_L'' [1 / 2, 1 / 2] = P6_annotated"
    by (simp add: P6_table_def P6_annotated_def put_col_def set_col_def REQUIRED_COLUMNS_def
        fit_def)
  finally show ?thesis .
qed

lemma splitext_data: "splitext ''data.xlsx'' = (''data'', ''.xlsx'')"
  by (simp add: splitext_def rfind_def has_non_dot.simps)

lemma P6_run:
  "compute_restraint_score P6_world ''data.xlsx'' = Returns ((P6_annotated, 4), P6_world_after)"
proof -
  have "compute_restraint_score P6_world ''data.xlsx'' =
     Returns ((P6_annotated, 4),
       P6_world\<lparr>files := (files P6_world)(''data_output.xlsx'' \<mapsto> to_excel P6_annotated),
         stdout := stdout P6_world @ [LineFile ''data.xlsx'',
            LineLengths (Fin 1) (Fin 1) (Fin 1) (Fin 1), LineScore 4,
            LineWrote ''data_output.xlsx'']\<rparr>)"
    by (simp add: compute_restraint_score_def P6_lengths P6_clean_table P6_evaluate
        output_path_def splitext_data Let_def)
  then show ?thesis by (simp add: P6_world_def P6_world_after_def)
qed

lemma extra_lengths: "read_lengths extra_world ''extra.xlsx'' = Inr (Fin 1, Fin 1, Fin 1, Fin 1)"
  by (simp add: read_lengths_def read_excel_raw_def extra_world_def length_block_def
      width_def REQUIRED_COLUMNS_def fit_def lengths_cell_def LENGTH_CELLS_def
      iat_def py_float_def)

lemma extra_read_table:
  "read_excel_table extra_world ''extra.xlsx'' TABLE_SKIPROWS =
     Inr \<lparr>columns = map Text (''note'' # REQUIRED_COLUMNS @ [''fdij'']),
          rows = [Text ''A'' # map (\<lambda>v. Number (Fin v)) [0, 0, 0, 0, 1, 18 / 10] @ [Text ''old''],
                  Text ''B'' # map (\<lambda>v. Number (Fin v)) [2, 0, 0, 2, 1, 18 / 10, 99]]\<rparr>"
  by (simp add: read_excel_table_def read_excel_raw_def extra_world_def length_block_def
      TABLE_SKIPROWS_def width_def REQUIRED_COLUMNS_def fit_def)

lemma extra_clean_table:
  "read_restraint_table extra_world ''extra.xlsx'' =
     Inr \<lparr>columns = map Text (''note'' # REQUIRED_COLUMNS @ [''fdij'']),
          rows = [Text ''A'' # map (\<lambda>v. Number (Fin v)) [0, 0, 0, 0, 1, 18 / 10] @ [Text ''old''],
                  Text ''B'' # map (\<lambda>v. Number (Fin v)) [2, 0, 0, 2, 1, 18 / 10, 99]]\<rparr>"
  by (simp add: read_restraint_table_def extra_read_table Let_def)
    (simp add: REQUIRED_COLUMNS_def get_col_def set_col_def cell_at_def fit_def
       to_numeric_def dropna_def empty_df_def)

lemma extra_agrees:
  "\<forall>c\<in>set REQUIRED_COLUMNS. get_col P6_table c =
     get_col \<lparr>columns = map Text (''note'' # REQUIRED_COLUMNS @ [''fdij'']),
          rows = [Text ''A'' # map (\<lambda>v. Number (Fin v)) [0, 0, 0, 0, 1, 18 / 10] @ [Text ''old''],
                  Text ''B'' # map (\<lambda>v. Number (Fin v)) [2, 0, 0, 2, 1, 18 / 10, 99]]\<rparr> c"
  by (simp add: REQUIRED_COLUMNS_def P6_table_def get_col_def cell_at_def)

section \<open>The whole run: facts\<close>

lemma run_effects:
  assumes "compute_restraint_score w p = Returns ((df', s), w')"
  shows "files w' = (files w)(output_path p \<mapsto> to_excel df')
    \<and> (\<exists>Ls Lx Ly Lz. read_lengths w p = Inr (Ls, Lx, Ly, Lz)
          \<and> stdout w' = stdout w @ [LineFile p, LineLengths Ls Lx Ly Lz, LineScore s,
                                      LineWrote (output_path p)])"
  using assms
  by (auto simp: compute_restraint_score_def Let_def
      split: sum.splits prod.splits fval.splits option.splits)

lemma run_score_cong:
  assumes "read_lengths w1 p1 = read_lengths w2 p2"
    and "read_restraint_table w1 p1 = Inr df1" and "read_restraint_table w2 p2 = Inr df2"
    and "\<forall>c\<in>set REQUIRED_COLUMNS. get_col df1 c = get_col df2 c"
  shows "map_outcome (\<lambda>r. snd (fst r)) (compute_restraint_score w1 p1)
       = map_outcome (\<lambda>r. snd (fst r)) (compute_restraint_score w2 p2)"
proof (cases "read_lengths w2 p2")
  case (Inl e)
  then show ?thesis using assms(1) by (simp add: compute_restraint_score_def)
next
  case (Inr t)
  obtain Ls Lx Ly Lz where t: "t = (Ls, Lx, Ly, Lz)" by (cases t) auto
  show ?thesis
  proof (cases "\<exists>ls lx ly lz. t = (Fin ls, Fin lx, Fin ly, Fin lz)")
    case False
    then show ?thesis
      using assms(1-3) Inr t
      by (auto simp: compute_restraint_score_def split: fval.splits)
  next
    case True
    then obtain ls lx ly lz where f: "t = (Fin ls, Fin lx, Fin ly, Fin lz)" by blast
    from evaluate_score_cong [OF assms(4), of ls lx ly lz]
    have "(evaluate ls lx ly lz df1 = None \<and> evaluate ls lx ly lz df2 = None)
      \<or> (\<exists>d1 d2 s. evaluate ls lx ly lz df1 = Some (d1, s) \<and> evaluate ls lx ly lz df2 = Some (d2, s))"
      by (cases "evaluate ls lx ly lz df1"; cases "evaluate ls lx ly lz df2") auto
    then show ?thesis
      using assms(1-3) Inr f
      by (auto simp: compute_restraint_score_def Let_def)
  qed
qed

section \<open>Splitting the extension: facts\<close>

lemma rfind_append_notin: "c \<notin> set ys \<Longrightarrow> rfind (xs @ ys) c = rfind xs c"
proof -
  assume n: "c \<notin> set ys"
  then have "takeWhile (\<lambda>x. x \<noteq> c) (rev ys @ rev xs) = rev ys @ takeWhile (\<lambda>x. x \<noteq> c) (rev xs)"
    by (intro takeWhile_append2) auto
  with n show ?thesis by (simp add: rfind_def)
qed

lemma rfind_snoc: "rfind (xs @ [c]) c = int (length xs)"
  by (simp add: rfind_def)

lemma rfind_less: "rfind p c < int (length p)"
  by (simp add: rfind_def)

lemma length_takeWhile_strict:
  "x \<in> set xs \<Longrightarrow> \<not> P x \<Longrightarrow> length (takeWhile P xs) < length xs"
  by (induction xs) auto

lemma rfind_ge: "- 1 \<le> rfind p c"
proof -
  have "length (takeWhile (\<lambda>x. x \<noteq> c) (rev p)) < length p" if "c \<in> set p"
  proof -
    have "length (takeWhile (\<lambda>x. x \<noteq> c) (rev p)) < length (rev p)"
      using that by (intro length_takeWhile_strict [of c]) auto
    then show ?thesis by simp
  qed
  then show ?thesis by (auto simp: rfind_def)
qed

lemma has_non_dot_iff:
  "has_non_dot p f d \<longleftrightarrow> (\<exists>i. f \<le> i \<and> i < d \<and> p ! i \<noteq> CHR ''.'')"
proof (induction p f d rule: has_non_dot.induct)
  case (1 p f d)
  show ?case
  proof (cases "f < d")
    case False
    then show ?thesis by (subst has_non_dot.simps) auto
  next
    case True
    show ?thesis
    proof (cases "p ! f \<noteq> CHR ''.''")
      case t: True
      with True show ?thesis by (subst has_non_dot.simps) auto
    next
      case False
      with True have "has_non_dot p f d = has_non_dot p (Suc f) d"
        by (subst has_non_dot.simps) simp
      also have "\<dots> \<longleftrightarrow> (\<exists>i. Suc f \<le> i \<and> i < d \<and> p ! i \<noteq> CHR ''.'')"
        using "1.IH" True False by simp
      also have "\<dots> \<longleftrightarrow> (\<exists>i. f \<le> i \<and> i < d \<and> p ! i \<noteq> CHR ''.'')"
        using False by (metis Suc_leD Suc_leI le_neq_implies_less)
      finally show ?thesis .
    qed
  qed
qed

lemma splitext_stem:
  assumes "CHR ''/'' \<notin> set name" and "\<exists>c\<in>set name. c \<noteq> CHR ''.''"
    and "CHR ''.'' \<notin> set ext" and "CHR ''/'' \<notin> set ext"
  shows "splitext (dir @ name @ ''.'' @ ext) = (dir @ name, ''.'' @ ext)"
proof -
  let ?p = "dir @ name @ ''.'' @ ext"
  have dot: "rfind ?p CHR ''.'' = int (length dir + length name)"
    using rfind_append_notin [OF assms(3), of "(dir @ name) @ ''.''"] rfind_snoc [of "dir @ name" "CHR ''.''"]
    by simp
  have "CHR ''/'' \<notin> set (name @ ''.'' @ ext)" using assms(1,4) by simp
  from rfind_append_notin [OF this, of dir]
  have sep: "rfind ?p CHR ''/'' = rfind dir CHR ''/''" by simp
  have lt: "rfind dir CHR ''/'' < int (length dir)" by (rule rfind_less)
  have ge: "- 1 \<le> rfind dir CHR ''/''" by (rule rfind_ge)
  from assms(2) obtain j where j: "j < length name" "name ! j \<noteq> CHR ''.''"
    by (auto simp: in_set_conv_nth)
  have "nat (rfind dir CHR ''/'' + 1) \<le> length dir + j" using lt ge by linarith
  moreover have "length dir + j < length dir + length name" using j by simp
  moreover have "?p ! (length dir + j) \<noteq> CHR ''.''"
    using j by (simp add: nth_append)
  ultimately have nd: "has_non_dot ?p (nat (rfind dir CHR ''/'' + 1)) (length dir + length name)"
    unfolding has_non_dot_iff by blast
  have gt: "rfind dir CHR ''/'' < int (length dir + length name)" using lt by simp
  show ?thesis
    unfolding splitext_def Let_def dot sep
    using nd gt by (simp add: nat_int_add)
qed

section \<open>The fixed cells of the lengths\<close>

text \<open>
  C6. For every input grid of at least 5 rows and 2 columns with numeric values at the
  0-indexed cells (1,1), (2,1), (3,1), (4,1), \<open>read_lengths\<close> returns exactly those four
  values as floats, as (Ls, Lx, Ly, Lz) in that order; any other grid of that size with the
  same four cells gives the same result, whatever its other cells hold.
\<close>

theorem read_lengths_fixed_cells:
  assumes "files w p = Some g" and "5 \<le> length g" and "\<forall>r\<in>set g. 2 \<le> length r"
    and "g ! 1 ! 1 = Number (Fin ls)" and "g ! 2 ! 1 = Number (Fin lx)"
    and "g ! 3 ! 1 = Number (Fin ly)" and "g ! 4 ! 1 = Number (Fin lz)"
  shows "read_lengths w p = Inr (Fin ls, Fin lx, Fin ly, Fin lz)
    \<and> (\<forall>w' p' g'. files w' p' = Some g' \<and> 5 \<le> length g' \<and> (\<forall>r\<in>set g'. 2 \<le> length r)
          \<and> g' ! 1 ! 1 = g ! 1 ! 1 \<and> g' ! 2 ! 1 = g ! 2 ! 1
          \<and> g' ! 3 ! 1 = g ! 3 ! 1 \<and> g' ! 4 ! 1 = g ! 4 ! 1
        \<longrightarrow> read_lengths w' p' = read_lengths w p)"
  using assms by (simp add: read_lengths_cells)

theorem read_lengths_fixed_cells_witness:
  "read_lengths bare_world ''bare.xlsx'' = Inr (Fin 5, Fin 2, Fin 3, Fin 4)
   \<and> read_lengths dirty_world ''dirty.xlsx'' = read_lengths bare_world ''bare.xlsx''"
proof -
  note t = read_lengths_fixed_cells [OF bare_file, of 5 2 3 4]
  have h: "read_lengths bare_world ''bare.xlsx'' = Inr (Fin 5, Fin 2, Fin 3, Fin 4)
    \<and> (\<forall>w' p' g'. files w' p' = Some g' \<and> 5 \<le> length g' \<and> (\<forall>r\<in>set g'. 2 \<le> length r)
          \<and> g' ! 1 ! 1 = Number (Fin 5) \<and> g' ! 2 ! 1 = Number (Fin 2)
          \<and> g' ! 3 ! 1 = Number (Fin 3) \<and> g' ! 4 ! 1 = Number (Fin 4)
        \<longrightarrow> read_lengths w' p' = read_lengths bare_world ''bare.xlsx'')"
    using t by simp
  then have "read_lengths dirty_world ''dirty.xlsx'' = read_lengths bare_world ''bare.xlsx''"
    using dirty_file by (simp add: length_block_def REQUIRED_COLUMNS_def)
  with h show ?thesis by simp
qed

section \<open>Schema enforcement\<close>

text \<open>
  C3. For an input table that misses a non-empty set \<open>S\<close> of the six required columns,
  \<open>read_restraint_table\<close> fails, and the list of names in its error is \<open>S\<close> as a set.
  The failure comes before any coercion or row dropping: every table with the same header
  fails in the same way, whatever its data rows hold.
\<close>

theorem missing_columns_reported:
  assumes "read_excel_table w p TABLE_SKIPROWS = Inr df"
    and "S = {c \<in> set REQUIRED_COLUMNS. Text c \<notin> set (columns df)}"
    and "S \<noteq> {}"
  shows "\<exists>missing. read_restraint_table w p = Inl (ValueError (MissingRequiredColumns missing))
           \<and> set missing = S
           \<and> (\<forall>w' p' df'. read_excel_table w' p' TABLE_SKIPROWS = Inr df'
                  \<and> columns df' = columns df
                \<longrightarrow> read_restraint_table w' p' = read_restraint_table w p)"
proof -
  let ?m = "filter (\<lambda>c. Text c \<notin> set (columns df)) REQUIRED_COLUMNS"
  have ne: "{c \<in> set REQUIRED_COLUMNS. Text c \<notin> set (columns df)} \<noteq> {}"
    using assms(2,3) by simp
  have 1: "read_restraint_table w p = Inl (ValueError (MissingRequiredColumns ?m))"
    by (rule missing_columns_aux [OF assms(1) ne])
  have 2: "set ?m = S" using assms(2) by auto
  have 3: "read_restraint_table w' p' = read_restraint_table w p"
    if "read_excel_table w' p' TABLE_SKIPROWS = Inr df'" "columns df' = columns df" for w' p' df'
    using missing_columns_aux [OF that(1)] ne 1 that(2) by simp
  from 1 2 3 show ?thesis by blast
qed

theorem missing_columns_reported_witness:
  "{''wi'', ''dij''} = {c \<in> set REQUIRED_COLUMNS. Text c \<notin> set (map Text
        [''prot x coor'', ''prot y coor'', ''prot z coor'', ''sl'', ''note''])}
   \<and> {''wi'', ''dij''} \<noteq> ({} :: string set)
   \<and> (\<exists>missing. read_restraint_table short_world ''short.xlsx''
                    = Inl (ValueError (MissingRequiredColumns missing))
                 \<and> set missing = {''wi'', ''dij''})"
proof -
  have S: "{''wi'', ''dij''} = {c \<in> set REQUIRED_COLUMNS. Text c \<notin> set (columns
      \<lparr>columns = map Text [''prot x coor'', ''prot y coor'', ''prot z coor'', ''sl'', ''note''],
          rows = [[Number (Fin 0), Number (Fin 0), Number (Fin 0), Number (Fin 0), Text ''first'']]\<rparr>)}"
    by (auto simp: REQUIRED_COLUMNS_def)
  have ne: "{''wi'', ''dij''} \<noteq> ({} :: string set)" by simp
  from missing_columns_reported [OF short_table S ne] S ne
  show ?thesis by auto
qed

section \<open>Cleaning\<close>




section \<open>Emptiness\<close>



section \<open>Side effects\<close>

text \<open>
  C7, as stated, fails: \<open>compute_restraint_score\<close> itself writes the output file and
  prints. On the example P6 the file \<open>data_output.xlsx\<close> exists after the run and not
  before, and four lines have been printed.
\<close>

theorem run_writes_and_prints:
  "compute_restraint_score P6_world ''data.xlsx'' = Returns ((P6_annotated, 4), P6_world_after)
   \<and> files P6_world_after ''data_output.xlsx'' \<noteq> files P6_world ''data_output.xlsx''
   \<and> stdout P6_world_after \<noteq> stdout P6_world"
  using P6_run by (simp add: P6_world_def P6_world_after_def)

text \<open>
  C7, amended. \<open>compute_restraint_score\<close> has side effects of its own: when it returns
  the annotated table and the score, it has written that table to the output path, has
  changed no other file, and has printed four lines after what was printed before: the
  input path, the four lengths, the score and the output path. No writer outside the
  function is involved.
\<close>

theorem run_effects_on_return:
  assumes "compute_restraint_score w p = Returns ((df', s), w')"
  shows "files w' = (files w)(output_path p \<mapsto> to_excel df')
    \<and> (\<exists>Ls Lx Ly Lz. read_lengths w p = Inr (Ls, Lx, Ly, Lz)
          \<and> stdout w' = stdout w @ [LineFile p, LineLengths Ls Lx Ly Lz, LineScore s,
                                      LineWrote (output_path p)])"
  using assms by (rule run_effects)

theorem run_effects_on_return_witness:
  "compute_restraint_score P6_world ''data.xlsx'' = Returns ((P6_annotated, 4), P6_world_after)
   \<and> files P6_world_after = (files P6_world)(''data_output.xlsx'' \<mapsto> to_excel P6_annotated)
   \<and> stdout P6_world_after = stdout P6_world @
        [LineFile ''data.xlsx'', LineLengths (Fin 1) (Fin 1) (Fin 1) (Fin 1), LineScore 4,
         LineWrote ''data_output.xlsx'']"
  using run_effects_on_return [OF P6_run] P6_run P6_lengths
  by (simp add: output_path_def splitext_data)

section \<open>The output path\<close>

text \<open>
  C8, as stated, fails: the extension of the input path is not kept. The input
  \<open>data.xls\<close> gives \<open>data_output.xlsx\<close>, not \<open>data_output.xls\<close>.
\<close>

theorem output_path_drops_extension:
  "output_path ''data.xls'' = ''data_output.xlsx''
   \<and> output_path ''data.xls'' \<noteq> ''data_output.xls''"
  by (simp add: output_path_def splitext_def rfind_def has_non_dot.simps)

text \<open>
  C8, amended. The output path is the input path with its extension removed, followed by
  \<open>_output.xlsx\<close>: for a file name that has a character other than a dot, and an
  extension \<open>ext\<close> without dot or slash, \<open>name.ext\<close> in any directory yields
  \<open>name_output.xlsx\<close> in that directory, whatever \<open>ext\<close> is. The extension is kept only
  when it is \<open>xlsx\<close>.
\<close>

theorem output_path_xlsx:
  assumes "CHR ''/'' \<notin> set name" and "\<exists>c\<in>set name. c \<noteq> CHR ''.''"
    and "CHR ''.'' \<notin> set ext" and "CHR ''/'' \<notin> set ext"
  shows "output_path (dir @ name @ ''.'' @ ext) = dir @ name @ ''_output.xlsx''"
  using splitext_stem [OF assms, of dir] by (simp add: output_path_def)

theorem output_path_xlsx_witness:
  "CHR ''/'' \<notin> set ''data'' \<and> CHR ''.'' \<notin> set ''xls'' \<and> CHR ''/'' \<notin> set ''xls''
   \<and> output_path ''runs/data.xls'' = ''runs/data_output.xlsx''"
proof -
  have 1: "CHR ''/'' \<notin> set ''data''" and 2: "\<exists>c\<in>set ''data''. c \<noteq> CHR ''.''"
    and 3: "CHR ''.'' \<notin> set ''xls''" and 4: "CHR ''/'' \<notin> set ''xls''"
    by simp_all
  from output_path_xlsx [OF 1 2 3 4, of "''runs/''"] show ?thesis by simp
qed

section \<open>Columns that are not required\<close>

text \<open>
  C9. Columns that are not required play no role in scoring: for two inputs whose lengths
  are read alike and whose cleaned tables agree on the six required columns, the two runs
  have the same outcome as far as the score goes, whatever other columns either input
  has: the same score when they return, and otherwise the same exception or, both, an
  arithmetic that is not finite.
\<close>

theorem score_ignores_other_columns:
  assumes "read_lengths w1 p1 = read_lengths w2 p2"
    and "read_restraint_table w1 p1 = Inr df1" and "read_restraint_table w2 p2 = Inr df2"
    and "\<forall>c\<in>set REQUIRED_COLUMNS. get_col df1 c = get_col df2 c"
  shows "map_outcome (\<lambda>r. snd (fst r)) (compute_restraint_score w1 p1)
       = map_outcome (\<lambda>r. snd (fst r)) (compute_restraint_score w2 p2)"
  using assms by (rule run_score_cong)

theorem score_ignores_other_columns_witness:
  "read_lengths P6_world ''data.xlsx'' = read_lengths extra_world ''extra.xlsx''
   \<and> map_outcome (\<lambda>r. snd (fst r)) (compute_restraint_score P6_world ''data.xlsx'') = Returns 4
   \<and> map_outcome (\<lambda>r. snd (fst r)) (compute_restraint_score extra_world ''extra.xlsx'') = Returns 4"
proof -
  have l: "read_lengths P6_world ''data.xlsx'' = read_lengths extra_world ''extra.xlsx''"
    by (simp add: P6_lengths extra_lengths)
  from score_ignores_other_columns [OF l P6_clean_table extra_clean_table extra_agrees] P6_run l
  show ?thesis by simp
qed

end
